theory Spec2Isabelle
  imports Main
begin

section \<open>Text: the \<open>str\<close> methods that \<open>check.py\<close> calls\<close>

text \<open>
  Text and bytes are both modelled as \<open>string\<close> (a list of 8-bit characters): decoded
  text is restricted to the code points below 256.  The methods below follow CPython's
  \<open>str\<close> on that range.
\<close>

type_synonym bytes = string

definition startswith :: "string \<Rightarrow> string \<Rightarrow> bool" where
  "startswith s p = (take (length p) s = p)"

definition endswith :: "string \<Rightarrow> string \<Rightarrow> bool" where
  "endswith s p = (length p \<le> length s \<and> drop (length s - length p) s = p)"

definition isspace :: "char \<Rightarrow> bool" where
  \<comment> \<open>\<open>str.isspace\<close> below 256: TAB LF VT FF CR, FS GS RS US, SPACE, NEL, NBSP\<close>
  "isspace c = (c \<in> set [CHR 0x09, CHR 0x0A, CHR 0x0B, CHR 0x0C, CHR 0x0D,
                           CHR 0x1C, CHR 0x1D, CHR 0x1E, CHR 0x1F, CHR 0x20,
                           CHR 0x85, CHR 0xA0])"

definition strip :: "string \<Rightarrow> string" where
  \<comment> \<open>\<open>s.strip()\<close>: whitespace removed at both ends\<close>
  "strip s = rev (dropWhile isspace (rev (dropWhile isspace s)))"

definition is_linebreak :: "char \<Rightarrow> bool" where
  \<comment> \<open>the line boundaries of \<open>str.splitlines\<close> below 256\<close>
  "is_linebreak c = (c \<in> set [CHR 0x0A, CHR 0x0B, CHR 0x0C, CHR 0x0D,
                                CHR 0x1C, CHR 0x1D, CHR 0x1E, CHR 0x85])"

fun splitlines_from :: "string \<Rightarrow> string \<Rightarrow> string list" where
  "splitlines_from acc [] = (if acc = [] then [] else [rev acc])"
| "splitlines_from acc [c] =
     (if is_linebreak c then [rev acc] else [rev (c # acc)])"
| "splitlines_from acc (c # d # cs) =
     (if c = CHR 0x0D \<and> d = CHR 0x0A then rev acc # splitlines_from [] cs
      else if is_linebreak c then rev acc # splitlines_from [] (d # cs)
      else splitlines_from (c # acc) (d # cs))"

definition splitlines :: "string \<Rightarrow> string list" where
  \<comment> \<open>\<open>s.splitlines()\<close>: line ends dropped, CR LF one boundary, no empty last line\<close>
  "splitlines s = splitlines_from [] s"

fun split_from :: "char \<Rightarrow> string \<Rightarrow> string \<Rightarrow> string list" where
  "split_from sep acc [] = [rev acc]"
| "split_from sep acc (c # cs) =
     (if c = sep then rev acc # split_from sep [] cs else split_from sep (c # acc) cs)"

definition split :: "string \<Rightarrow> char \<Rightarrow> string list" where
  \<comment> \<open>\<open>s.split(sep)\<close> for a one-character separator: \<open>''''.split(sep) = ['''']\<close>\<close>
  "split s sep = split_from sep [] s"

fun join_str :: "string \<Rightarrow> string list \<Rightarrow> string" where
  "join_str sep [] = []"
| "join_str sep [x] = x"
| "join_str sep (x # y # ys) = x @ sep @ join_str sep (y # ys)"

fun str_nat :: "nat \<Rightarrow> string" where
  \<comment> \<open>the decimal digits of \<open>n\<close>, as \<open>f"{n}"\<close> prints them\<close>
  "str_nat n =
     (if n < 10 then [char_of (48 + n)]
      else str_nat (n div 10) @ [char_of (48 + n mod 10)])"

declare str_nat.simps [simp del]

section \<open>Paths: \<open>os.path\<close> on a POSIX system\<close>

text \<open>
  \<open>os.path\<close> is \<open>posixpath\<close>; \<open>join\<close>, \<open>normpath\<close>, \<open>isabs\<close> and \<open>abspath\<close>
  are transcribed from the standard library's Python source.
\<close>

definition join_step :: "string \<Rightarrow> string \<Rightarrow> string" where
  "join_step path b =
     (if startswith b ''/'' then b
      else if path = [] \<or> endswith path ''/'' then path @ b
      else path @ ''/'' @ b)"

definition path_join :: "string \<Rightarrow> string list \<Rightarrow> string" where
  \<comment> \<open>\<open>os.path.join(a, *p)\<close>\<close>
  "path_join a p = foldl join_step a p"

definition initial_slashes :: "string \<Rightarrow> nat" where
  \<comment> \<open>POSIX allows one or two initial slashes, but treats three or more as a single slash\<close>
  "initial_slashes path =
     (if \<not> startswith path ''/'' then 0
      else if startswith path ''//'' \<and> \<not> startswith path ''///'' then 2
      else 1)"

definition norm_comp :: "nat \<Rightarrow> string list \<Rightarrow> string \<Rightarrow> string list" where
  \<comment> \<open>one round of the loop over \<open>comps\<close>, for the component \<open>c\<close>\<close>
  "norm_comp init new_comps c =
     (if c = [] \<or> c = ''.'' then new_comps
      else if c \<noteq> ''..'' \<or> (init = 0 \<and> new_comps = [])
              \<or> (new_comps \<noteq> [] \<and> last new_comps = ''..'')
        then new_comps @ [c]
      else if new_comps \<noteq> [] then butlast new_comps
      else new_comps)"

definition normpath :: "string \<Rightarrow> string" where
  "normpath path =
     (if path = [] then ''.''
      else
        let init = initial_slashes path;
            comps = foldl (norm_comp init) [] (split path CHR ''/'');
            joined = join_str ''/'' comps;
            path' = (if init \<noteq> 0 then replicate init CHR ''/'' @ joined else joined)
        in if path' = [] then ''.'' else path')"

definition isabs :: "string \<Rightarrow> bool" where
  "isabs s = startswith s ''/''"

definition abspath :: "string \<Rightarrow> string \<Rightarrow> string" where
  \<comment> \<open>\<open>os.path.abspath(path)\<close>, the first argument being \<open>os.getcwd()\<close>\<close>
  "abspath getcwd path =
     normpath (if \<not> isabs path then path_join getcwd [path] else path)"

section \<open>The environment of a run\<close>

datatype exn =
    CalledProcessError int "string list" bytes
  | OSError
  | TypeError
  | UnicodeError

datatype outcome = SysExit int | Raised exn | Returned

datatype proc_result = Exited int bytes | NotStarted

text \<open>\<open>sys.stdout.encoding\<close>: the attribute may be missing, and when present be \<open>None\<close>.\<close>

datatype attr = NoAttr | Attr "string option"

text \<open>
  What a run does to the outside, in order: the commands it starts, the warnings it
  emits, the lines it echoes and its calls of \<open>find_fragments\<close>.
\<close>

datatype ('s, 't) event =
    Run "string list" string
  | DeprecationWarning string
  | Echo string
  | EchoBytes bytes
  | FindFragments string 's "string option" 't

text \<open>
  The configuration mapping returned by \<open>load_config_from_options\<close>, with the keys
  \<open>check.py\<close> reads.  \<open>directory\<close> is read with \<open>config.get\<close>: \<open>None\<close> stands for a
  missing key and for the value \<open>None\<close>.
\<close>

record ('s, 't) config =
  filename :: string
  directory :: "string option"
  package_dir :: string
  package :: string
  sections :: 's
  types :: 't

text \<open>
  Everything \<open>check.py\<close> takes from outside itself: the interpreter's standard output, the
  operating system (what a command run in a directory does: its exit status and its
  combined output), the codecs, the working directory, the two collaborators of the
  package (\<open>_settings.load_config_from_options\<close>, \<open>_builder.find_fragments\<close>), and the
  order in which the interpreter iterates over a set.  A command either exits with a
  status and an output, or cannot be started at all (\<open>check_output\<close> then raises an
  \<open>OSError\<close>); a codec either decodes the bytes or fails.  The two collaborators are
  taken to return: what happens when one of them raises is outside this model.
\<close>

record ('s, 't, 'c) env =
  stdout_encoding :: attr
  proc :: "string list \<Rightarrow> string \<Rightarrow> proc_result"
  codec :: "string \<Rightarrow> bytes \<Rightarrow> string option"
  getcwd :: string
  load_config_from_options :: "string option \<Rightarrow> string option \<Rightarrow> string \<times> ('s, 't) config"
  find_fragments :: "string \<Rightarrow> 's \<Rightarrow> string option \<Rightarrow> 't \<Rightarrow> 'c \<times> string list"
  set_iter :: "string set \<Rightarrow> string list"

section \<open>\<open>check.py\<close>\<close>

definition run :: "('s, 't, 'c) env \<Rightarrow> string list \<Rightarrow> string \<Rightarrow> exn + bytes" where
  \<comment> \<open>\<open>_run\<close>: \<open>check_output\<close> with standard error merged into the output\<close>
  "run env args cwd =
     (case proc env args cwd of
        NotStarted \<Rightarrow> Inl OSError
      | Exited rc out \<Rightarrow> if rc = 0 then Inr out else Inl (CalledProcessError rc args out))"

definition decode :: "('s, 't, 'c) env \<Rightarrow> string option \<Rightarrow> bytes \<Rightarrow> exn + string" where
  \<comment> \<open>\<open>bytes.decode(encoding)\<close>: \<open>encoding\<close> must be a \<open>str\<close>\<close>
  "decode env encoding b =
     (case encoding of
        None \<Rightarrow> Inl TypeError
      | Some e \<Rightarrow> (case codec env e b of None \<Rightarrow> Inl UnicodeError | Some s \<Rightarrow> Inr s))"

definition get_remote_branches ::
  "('s, 't, 'c) env \<Rightarrow> string \<Rightarrow> string option \<Rightarrow> exn + string list" where
  "get_remote_branches env base_directory encoding =
     (case run env [''git'', ''branch'', ''-r''] base_directory of
        Inl e \<Rightarrow> Inl e
      | Inr b \<Rightarrow>
          (case decode env encoding b of
             Inl e \<Rightarrow> Inl e
           | Inr output \<Rightarrow> Inr (map strip (splitlines output))))"

definition master_deprecated :: string where
  "master_deprecated =
     ''Using '' @ [CHR 0x22] @ ''origin/master'' @ [CHR 0x22]
       @ '' as default compare branch is deprecated ''
       @ ''and will be removed in a future version.''"

definition get_default_compare_branch :: "string list \<Rightarrow> string list \<times> string option" where
  \<comment> \<open>the warnings emitted (\<open>warn\<close> under the default filters: it records the warning
      and returns), and the value returned\<close>
  "get_default_compare_branch branches =
     (if ''origin/main'' \<in> set branches then ([], Some ''origin/main'')
      else if ''origin/master'' \<in> set branches
        then ([master_deprecated], Some ''origin/master'')
      else ([], None))"

definition getattr_encoding :: "attr \<Rightarrow> string option" where
  \<comment> \<open>\<open>getattr(sys.stdout, "encoding", "utf8")\<close>\<close>
  "getattr_encoding a = (case a of NoAttr \<Rightarrow> Some ''utf8'' | Attr v \<Rightarrow> v)"

text \<open>
  \<open>__main\<close> is a sequence of four blocks, each of which either ends the run (\<open>Inl\<close>: an
  exit or an exception that nothing catches) or hands a value to the next block
  (\<open>Inr\<close>).  Each block also yields the events it caused, in order.
\<close>

type_synonym ('s, 't, 'a) block = "('s, 't) event list \<times> (outcome + 'a)"

definition next_block ::
  "('s, 't, 'a) block \<Rightarrow> ('a \<Rightarrow> ('s, 't, 'b) block) \<Rightarrow> ('s, 't, 'b) block" where
  "next_block b f =
     (case b of
        (evs, Inl out) \<Rightarrow> (evs, Inl out)
      | (evs, Inr x) \<Rightarrow> (case f x of (evs', r) \<Rightarrow> (evs @ evs', r)))"

definition branch_listing :: "string list" where
  "branch_listing = [''git'', ''branch'', ''-r'']"

definition resolve_comparewith ::
  "('s, 't, 'c) env \<Rightarrow> string option \<Rightarrow> string \<Rightarrow> string option \<Rightarrow> ('s, 't, string) block" where
  \<comment> \<open>lines 82 to 89\<close>
  "resolve_comparewith env comparewith base_directory encoding =
     (case comparewith of
        Some b \<Rightarrow> ([], Inr b)
      | None \<Rightarrow>
          (case get_remote_branches env base_directory encoding of
             Inl e \<Rightarrow> ([Run branch_listing base_directory], Inl (Raised e))
           | Inr branches \<Rightarrow>
               (case get_default_compare_branch branches of
                  (ws, None) \<Rightarrow>
                    (Run branch_listing base_directory # map DeprecationWarning ws
                       @ [Echo ''Could not detect default branch. Aborting.''],
                     Inl (SysExit 1))
                | (ws, Some b) \<Rightarrow>
                    (Run branch_listing base_directory # map DeprecationWarning ws,
                     Inr b))))"

definition diff_command :: "string \<Rightarrow> string list" where
  "diff_command comparewith = [''git'', ''diff'', ''--name-only'', comparewith @ ''...'']"

definition collect_diff ::
  "('s, 't, 'c) env \<Rightarrow> string \<Rightarrow> string option \<Rightarrow> string \<Rightarrow> ('s, 't, string) block" where
  \<comment> \<open>lines 91 to 108; the value handed on is \<open>files_changed\<close>\<close>
  "collect_diff env base_directory encoding comparewith =
     (case run env (diff_command comparewith) base_directory of
        Inl (CalledProcessError rc cmd out) \<Rightarrow>
          ([Run (diff_command comparewith) base_directory,
            Echo ''git produced output while failing:'',
            EchoBytes out],
           Inl (Raised (CalledProcessError rc cmd out)))
      | Inl e \<Rightarrow> ([Run (diff_command comparewith) base_directory], Inl (Raised e))
      | Inr b \<Rightarrow>
          (case decode env encoding b of
             Inl e \<Rightarrow> ([Run (diff_command comparewith) base_directory], Inl (Raised e))
           | Inr text \<Rightarrow>
               let files_changed = strip text in
               if files_changed = []
               then ([Run (diff_command comparewith) base_directory,
                      Echo (''On '' @ comparewith
                              @ '' branch, or no diffs, so no newsfragment required.'')],
                     Inl (SysExit 0))
               else ([Run (diff_command comparewith) base_directory], Inr files_changed)))"

definition enumerate_echo :: "string list \<Rightarrow> ('s, 't) event list" where
  \<comment> \<open>\<open>for n, x in enumerate(xs, start=1): click.echo(f"{n}. {x}")\<close>\<close>
  "enumerate_echo xs =
     map (\<lambda>(n, x). Echo (str_nat n @ ''. '' @ x)) (zip [1 ..< Suc (length xs)] xs)"

definition changed_files :: "string \<Rightarrow> string \<Rightarrow> string set" where
  \<comment> \<open>lines 110 to 113: the set \<open>files\<close>\<close>
  "changed_files base_directory files_changed =
     set (map (\<lambda>path. normpath (path_join base_directory [path]))
            (splitlines (strip files_changed)))"

definition news_file_shortcut ::
  "('s, 't, 'c) env \<Rightarrow> string \<Rightarrow> ('s, 't) config \<Rightarrow> string \<Rightarrow> ('s, 't, string set) block" where
  \<comment> \<open>lines 110 to 124; the value handed on is \<open>files\<close>\<close>
  "news_file_shortcut env base_directory config files_changed =
     (let files = changed_files base_directory files_changed;
          looking = [Echo ''Looking at these files:'', Echo ''----'']
                      @ enumerate_echo (set_iter env files) @ [Echo ''----''];
          news_file = normpath (path_join base_directory [filename config])
      in if news_file \<in> files
         then (looking @ [Echo ''Checks SKIPPED: news file changes detected.''],
               Inl (SysExit 0))
         else (looking, Inr files))"

definition truthy :: "string option \<Rightarrow> bool" where
  \<comment> \<open>the truth value of a \<open>str\<close> or \<open>None\<close>\<close>
  "truthy v = (case v of None \<Rightarrow> False | Some s \<Rightarrow> s \<noteq> [])"

definition fragment_search ::
  "('s, 't, 'c) env \<Rightarrow> string \<Rightarrow> ('s, 't) config \<Rightarrow> string \<times> string option" where
  \<comment> \<open>lines 126 to 133: \<open>(fragment_base_directory, fragment_directory)\<close>\<close>
  "fragment_search env base_directory config =
     (if truthy (directory config)
      then (abspath (getcwd env) (case directory config of Some d \<Rightarrow> d | None \<Rightarrow> []), None)
      else (abspath (getcwd env)
              (path_join base_directory [package_dir config, package config]),
            Some ''newsfragments''))"

definition found_fragments ::
  "('s, 't, 'c) env \<Rightarrow> string \<Rightarrow> ('s, 't) config \<Rightarrow> string set" where
  \<comment> \<open>lines 135 to 143: the set \<open>fragments\<close>\<close>
  "found_fragments env base_directory config =
     (case fragment_search env base_directory config of
        (fragment_base_directory, fragment_directory) \<Rightarrow>
          set (map normpath
                 (snd (find_fragments env fragment_base_directory (sections config)
                         fragment_directory (types config)))))"

definition match_fragments ::
  "('s, 't, 'c) env \<Rightarrow> string \<Rightarrow> ('s, 't) config \<Rightarrow> string set \<Rightarrow> ('s, 't, unit) block" where
  \<comment> \<open>lines 126 to 153\<close>
  "match_fragments env base_directory config files =
     (case fragment_search env base_directory config of
        (fragment_base_directory, fragment_directory) \<Rightarrow>
          let fragments = found_fragments env base_directory config;
              fragments_in_branch = fragments \<inter> files;
              call = FindFragments fragment_base_directory (sections config)
                       fragment_directory (types config)
          in if fragments_in_branch = {}
             then ([call, Echo ''No new newsfragments found on this branch.''],
                   Inl (SysExit 1))
             else (call # Echo ''Found:'' # enumerate_echo (set_iter env fragments_in_branch),
                   Inl (SysExit 0)))"

definition main ::
  "('s, 't, 'c) env \<Rightarrow> string option \<Rightarrow> string option \<Rightarrow> string option
     \<Rightarrow> ('s, 't) event list \<times> outcome" where
  \<comment> \<open>\<open>__main(comparewith, directory, config)\<close>\<close>
  "main env comparewith dir config_path =
     (case load_config_from_options env dir config_path of
        (base_directory, config) \<Rightarrow>
          let encoding = getattr_encoding (stdout_encoding env) in
          (case next_block
                  (next_block
                     (next_block
                        (resolve_comparewith env comparewith base_directory encoding)
                        (collect_diff env base_directory encoding))
                     (news_file_shortcut env base_directory config))
                  (match_fragments env base_directory config) of
             (evs, Inl out) \<Rightarrow> (evs, out)
           | (evs, Inr _) \<Rightarrow> (evs, Returned)))"

section \<open>Observations on a run\<close>

fun is_run :: "('s, 't) event \<Rightarrow> bool" where
  "is_run (Run args cwd) = True"
| "is_run e = False"

fun is_warning :: "('s, 't) event \<Rightarrow> bool" where
  "is_warning (DeprecationWarning m) = True"
| "is_warning e = False"

fun is_find_fragments :: "('s, 't) event \<Rightarrow> bool" where
  "is_find_fragments (FindFragments b s d t) = True"
| "is_find_fragments e = False"

definition terminal_message :: "string \<Rightarrow> bool" where
  \<comment> \<open>the five messages echoed on the way to a \<open>sys.exit\<close>\<close>
  "terminal_message s =
     (s = ''Could not detect default branch. Aborting.''
      \<or> (startswith s ''On ''
          \<and> endswith s '' branch, or no diffs, so no newsfragment required.'')
      \<or> s = ''Checks SKIPPED: news file changes detected.''
      \<or> s = ''No new newsfragments found on this branch.''
      \<or> s = ''Found:'')"

fun is_terminal_echo :: "('s, 't) event \<Rightarrow> bool" where
  "is_terminal_echo (Echo s) = terminal_message s"
| "is_terminal_echo e = False"

fun is_echo :: "('s, 't) event \<Rightarrow> bool" where
  "is_echo (Echo s) = True"
| "is_echo (EchoBytes b) = True"
| "is_echo e = False"

section \<open>Paths that differ only by redundant parts\<close>

text \<open>
  The specification speaks of paths that differ only by redundant separators or by \<open>.\<close>
  and \<open>..\<close> segments.  \<open>redundant_variant\<close> is that relation, written out: a separator
  doubled or added at the end, a \<open>.\<close> segment, a directory name followed by \<open>..\<close>; closed
  under reading it in either direction and under chaining.
\<close>

definition is_name :: "string \<Rightarrow> bool" where
  "is_name n = (n \<noteq> [] \<and> CHR ''/'' \<notin> set n \<and> n \<noteq> ''.'' \<and> n \<noteq> ''..'')"

inductive redundant_variant :: "string \<Rightarrow> string \<Rightarrow> bool" where
  doubled_sep: "redundant_variant (xs @ ''/'' @ ys) (xs @ ''//'' @ ys)"
| trailing_sep: "redundant_variant xs (xs @ ''/'')"
| dot_segment: "redundant_variant (xs @ ''/'' @ ys) (xs @ ''/./'' @ ys)"
| leading_dot: "redundant_variant ys (''./'' @ ys)"
| dotdot_segment:
    "is_name n \<Longrightarrow> redundant_variant (xs @ ''/'' @ ys) (xs @ ''/'' @ n @ ''/../'' @ ys)"
| same: "redundant_variant p p"
| swap: "redundant_variant p q \<Longrightarrow> redundant_variant q p"
| chain: "redundant_variant p q \<Longrightarrow> redundant_variant q r \<Longrightarrow> redundant_variant p r"

section \<open>Example runs\<close>

definition example_config :: "(unit, unit) config" where
  "example_config =
     \<lparr> filename = ''NEWS.rst'', directory = None, package_dir = ''.'', package = [],
       sections = (), types = () \<rparr>"

definition example_order :: "string list" where
  "example_order =
     [''/repo/src/feature.py'', ''/repo/newsfragments/123.feature'', ''/repo/NEWS.rst'']"

definition git_with :: "bytes \<Rightarrow> bytes \<Rightarrow> string list \<Rightarrow> string \<Rightarrow> proc_result" where
  \<comment> \<open>a git that lists \<open>branches\<close> and reports \<open>diff\<close> as the changed files\<close>
  "git_with branches diff args cwd =
     (if args = [''git'', ''branch'', ''-r''] then Exited 0 branches
      else if take 3 args = [''git'', ''diff'', ''--name-only''] then Exited 0 diff
      else Exited 129 ''usage: git'')"

definition example_env :: "(unit, unit, unit) env" where
  \<comment> \<open>a branch with one source file and one news fragment changed\<close>
  "example_env =
     \<lparr> stdout_encoding = Attr (Some ''utf-8''),
       proc = git_with
                (''  origin/HEAD -> origin/main'' @ [CHR 0x0A] @ ''  origin/main'' @ [CHR 0x0A])
                (''src/feature.py'' @ [CHR 0x0A] @ ''newsfragments/123.feature'' @ [CHR 0x0A]),
       codec = (\<lambda>e b. if e = ''utf-8'' \<or> e = ''utf8'' then Some b else None),
       getcwd = ''/repo'',
       load_config_from_options = (\<lambda>d c. (''/repo'', example_config)),
       find_fragments = (\<lambda>b s d t. ((), [b @ ''/newsfragments/123.feature''])),
       set_iter = (\<lambda>S. filter (\<lambda>x. x \<in> S) example_order) \<rparr>"

definition piped_env :: "(unit, unit, unit) env" where
  \<comment> \<open>the same branch, with standard output piped: \<open>sys.stdout.encoding\<close> is \<open>None\<close>\<close>
  "piped_env = example_env \<lparr> stdout_encoding := Attr None \<rparr>"

definition no_repository_env :: "(unit, unit, unit) env" where
  \<comment> \<open>the base directory is not a git repository: every git command fails\<close>
  "no_repository_env =
     example_env \<lparr> proc := (\<lambda>args cwd. Exited 128 ''fatal: not a git repository'') \<rparr>"

definition master_env :: "(unit, unit, unit) env" where
  \<comment> \<open>a repository whose only remote branch is \<open>origin/master\<close>, with nothing changed\<close>
  "master_env =
     example_env \<lparr> proc := git_with (''  origin/master'' @ [CHR 0x0A]) [CHR 0x0A] \<rparr>"

definition news_env :: "(unit, unit, unit) env" where
  \<comment> \<open>a branch that changes the news file and a source file\<close>
  "news_env =
     example_env \<lparr> proc := git_with (''  origin/main'' @ [CHR 0x0A])
        (''src/feature.py'' @ [CHR 0x0A] @ ''NEWS.rst'' @ [CHR 0x0A]) \<rparr>"

definition no_fragment_env :: "(unit, unit, unit) env" where
  \<comment> \<open>a branch that changes a source file only\<close>
  "no_fragment_env =
     example_env \<lparr> proc := git_with (''  origin/main'' @ [CHR 0x0A])
        (''src/feature.py'' @ [CHR 0x0A]) \<rparr>"

definition bad_revision_env :: "(unit, unit, unit) env" where
  \<comment> \<open>a repository in which the diff fails: the branch to compare with does not exist\<close>
  "bad_revision_env =
     example_env \<lparr> proc := (\<lambda>args cwd.
        if args = [''git'', ''branch'', ''-r''] then Exited 0 (''  origin/main'' @ [CHR 0x0A])
        else Exited 128 ''fatal: bad revision'') \<rparr>"

definition dotted_env :: "(unit, unit, unit) env" where
  \<comment> \<open>the example branch, with a fragment discovery that reports unnormalised paths\<close>
  "dotted_env =
     example_env \<lparr> find_fragments :=
        (\<lambda>b s d t. ((), [b @ ''/./newsfragments//123.feature''])) \<rparr>"

section \<open>The default comparison branch\<close>

text \<open>
  C2.  For every list of branches: when \<open>origin/main\<close> is in it, whatever else is and in
  whatever order, \<open>_get_default_compare_branch\<close> returns \<open>origin/main\<close> and warns of
  nothing; when \<open>origin/main\<close> is not and \<open>origin/master\<close> is, it returns
  \<open>origin/master\<close> and emits the deprecation warning; when neither is, it returns
  \<open>None\<close>.  The warning is not fatal: a run that found \<open>origin/master\<close> goes on to the
  diff with that branch.
\<close>

theorem default_branch_priority:
  "(''origin/main'' \<in> set branches \<longrightarrow>
      get_default_compare_branch branches = ([], Some ''origin/main''))
   \<and> (''origin/main'' \<notin> set branches \<and> ''origin/master'' \<in> set branches \<longrightarrow>
        get_default_compare_branch branches = ([master_deprecated], Some ''origin/master'')
        \<and> (get_remote_branches env base_directory encoding = Inr branches \<longrightarrow>
             resolve_comparewith env None base_directory encoding =
               ([Run branch_listing base_directory, DeprecationWarning master_deprecated],
                Inr ''origin/master'')))
   \<and> (''origin/main'' \<notin> set branches \<and> ''origin/master'' \<notin> set branches \<longrightarrow>
        get_default_compare_branch branches = ([], None))"
  by (simp add: get_default_compare_branch_def resolve_comparewith_def)

theorem default_branch_priority_witness:
  "get_default_compare_branch [''origin/dev'', ''origin/master'', ''origin/main'']
     = ([], Some ''origin/main'')
   \<and> get_default_compare_branch [''origin/master'', ''origin/dev'']
       = ([master_deprecated], Some ''origin/master'')
   \<and> resolve_comparewith master_env None ''/repo'' (Some ''utf8'')
       = ([Run branch_listing ''/repo'', DeprecationWarning master_deprecated],
          Inr ''origin/master'')
   \<and> get_default_compare_branch [''origin/dev'', ''upstream/main''] = ([], None)"
proof -
  have remote: "get_remote_branches master_env ''/repo'' (Some ''utf8'') = Inr [''origin/master'']"
    by code_simp
  have main_first: "''origin/main'' \<in> set [''origin/dev'', ''origin/master'', ''origin/main'']"
    by simp
  have master_only: "''origin/main'' \<notin> set [''origin/master'', ''origin/dev'']
      \<and> ''origin/master'' \<in> set [''origin/master'', ''origin/dev'']"
    by simp
  have master_alone: "''origin/main'' \<notin> set [''origin/master'']
      \<and> ''origin/master'' \<in> set [''origin/master'']"
    by simp
  have neither: "''origin/main'' \<notin> set [''origin/dev'', ''upstream/main'']
      \<and> ''origin/master'' \<notin> set [''origin/dev'', ''upstream/main'']"
    by simp
  from default_branch_priority [of "[''origin/dev'', ''origin/master'', ''origin/main'']"]
    main_first
  have a: "get_default_compare_branch [''origin/dev'', ''origin/master'', ''origin/main'']
     = ([], Some ''origin/main'')"
    by blast
  from default_branch_priority [of "[''origin/master'', ''origin/dev'']"] master_only
  have b: "get_default_compare_branch [''origin/master'', ''origin/dev'']
       = ([master_deprecated], Some ''origin/master'')"
    by blast
  from default_branch_priority
         [of "[''origin/master'']" master_env "''/repo''" "Some ''utf8''"]
    master_alone remote
  have c: "resolve_comparewith master_env None ''/repo'' (Some ''utf8'')
       = ([Run branch_listing ''/repo'', DeprecationWarning master_deprecated],
          Inr ''origin/master'')"
    by blast
  from default_branch_priority [of "[''origin/dev'', ''upstream/main'']"] neither
  have d: "get_default_compare_branch [''origin/dev'', ''upstream/main''] = ([], None)"
    by blast
  from a b c d show ?thesis by simp
qed

section \<open>How the blocks compose\<close>

lemma fst_next_block:
  "fst (next_block b f) = fst b @ (case snd b of Inl out \<Rightarrow> [] | Inr x \<Rightarrow> fst (f x))"
  by (cases b) (auto simp: next_block_def split: sum.splits prod.splits)

lemma filter_next_block_none:
  "(\<And>x. filter P (fst (f x)) = []) \<Longrightarrow>
   filter P (fst (next_block b f)) = filter P (fst b)"
  by (simp add: fst_next_block split: sum.splits)

lemma fst_main:
  "load_config_from_options env dir cp = (base, cfg) \<Longrightarrow>
   fst (main env cw dir cp) =
     fst (next_block
            (next_block
               (next_block
                  (resolve_comparewith env cw base (getattr_encoding (stdout_encoding env)))
                  (collect_diff env base (getattr_encoding (stdout_encoding env))))
               (news_file_shortcut env base cfg))
            (match_fragments env base cfg))"
  by (auto simp: main_def Let_def split: prod.splits sum.splits)

subsection \<open>Which events a block can cause\<close>

lemma filter_enumerate_echo_find [simp]:
  "filter is_find_fragments (enumerate_echo xs) = []"
  by (auto simp: enumerate_echo_def filter_empty_conv)

lemma filter_enumerate_echo_run [simp]: "filter is_run (enumerate_echo xs) = []"
  by (auto simp: enumerate_echo_def filter_empty_conv)

lemma filter_enumerate_echo_warning [simp]: "filter is_warning (enumerate_echo xs) = []"
  by (auto simp: enumerate_echo_def filter_empty_conv)

lemma filter_warnings_find [simp]:
  "filter is_find_fragments (map DeprecationWarning ws) = []"
  by (auto simp: filter_empty_conv)

lemma resolve_no_find:
  "filter is_find_fragments (fst (resolve_comparewith env cw base enc)) = []"
  by (auto simp: resolve_comparewith_def split: option.splits sum.splits prod.splits)

lemma collect_no_find:
  "filter is_find_fragments (fst (collect_diff env base enc b)) = []"
  by (auto simp: collect_diff_def Let_def split: sum.splits exn.splits)

lemma collect_runs:
  "filter is_run (fst (collect_diff env base enc b)) = [Run (diff_command b) base]"
  by (auto simp: collect_diff_def Let_def split: sum.splits exn.splits)

lemma collect_warnings: "filter is_warning (fst (collect_diff env base enc b)) = []"
  by (auto simp: collect_diff_def Let_def split: sum.splits exn.splits)

lemma news_runs: "filter is_run (fst (news_file_shortcut env base cfg fc)) = []"
  by (auto simp: news_file_shortcut_def Let_def)

lemma news_warnings: "filter is_warning (fst (news_file_shortcut env base cfg fc)) = []"
  by (auto simp: news_file_shortcut_def Let_def)

lemma match_runs: "filter is_run (fst (match_fragments env base cfg files)) = []"
  by (auto simp: match_fragments_def Let_def split: prod.splits)

lemma match_warnings: "filter is_warning (fst (match_fragments env base cfg files)) = []"
  by (auto simp: match_fragments_def Let_def split: prod.splits)

subsection \<open>The example runs, block by block\<close>

lemma example_load:
  "load_config_from_options example_env None None = (''/repo'', example_config)"
  "load_config_from_options master_env None None = (''/repo'', example_config)"
  "load_config_from_options news_env None None = (''/repo'', example_config)"
  "load_config_from_options no_fragment_env None None = (''/repo'', example_config)"
  "load_config_from_options bad_revision_env None None = (''/repo'', example_config)"
  by (simp_all add: example_env_def master_env_def news_env_def no_fragment_env_def
        bad_revision_env_def)

lemma example_resolve:
  "resolve_comparewith example_env None ''/repo''
     (getattr_encoding (stdout_encoding example_env))
     = ([Run branch_listing ''/repo''], Inr ''origin/main'')"
  "resolve_comparewith news_env None ''/repo''
     (getattr_encoding (stdout_encoding news_env))
     = ([Run branch_listing ''/repo''], Inr ''origin/main'')"
  "resolve_comparewith no_fragment_env None ''/repo''
     (getattr_encoding (stdout_encoding no_fragment_env))
     = ([Run branch_listing ''/repo''], Inr ''origin/main'')"
  "resolve_comparewith bad_revision_env None ''/repo''
     (getattr_encoding (stdout_encoding bad_revision_env))
     = ([Run branch_listing ''/repo''], Inr ''origin/main'')"
  "resolve_comparewith master_env None ''/repo''
     (getattr_encoding (stdout_encoding master_env))
     = ([Run branch_listing ''/repo'', DeprecationWarning master_deprecated],
        Inr ''origin/master'')"
  by code_simp+

lemma example_collect:
  "collect_diff example_env ''/repo'' (getattr_encoding (stdout_encoding example_env))
     ''origin/main''
     = ([Run (diff_command ''origin/main'') ''/repo''],
        Inr (''src/feature.py'' @ [CHR 0x0A] @ ''newsfragments/123.feature''))"
  "collect_diff news_env ''/repo'' (getattr_encoding (stdout_encoding news_env))
     ''origin/main''
     = ([Run (diff_command ''origin/main'') ''/repo''],
        Inr (''src/feature.py'' @ [CHR 0x0A] @ ''NEWS.rst''))"
  "collect_diff no_fragment_env ''/repo'' (getattr_encoding (stdout_encoding no_fragment_env))
     ''origin/main''
     = ([Run (diff_command ''origin/main'') ''/repo''], Inr ''src/feature.py'')"
  by code_simp+

section \<open>The encoding of git's output\<close>

text \<open>
  C3.  The comment above line 81 promises UTF-8 both when \<open>sys.stdout\<close> has no
  \<open>encoding\<close> attribute and when the attribute is \<open>None\<close>.  \<open>getattr\<close> with a default
  covers the first case only: with the attribute present and \<open>None\<close>, \<open>encoding\<close> is
  \<open>None\<close>, and the first \<open>decode\<close> of git's output raises \<open>TypeError\<close>, whether the
  branch is given or looked up.
\<close>

theorem piped_output_type_error:
  "getattr_encoding NoAttr = Some ''utf8''
   \<and> getattr_encoding (stdout_encoding piped_env) = None
   \<and> main piped_env (Some ''origin/main'') None None
       = ([Run [''git'', ''diff'', ''--name-only'', ''origin/main...''] ''/repo''],
          Raised TypeError)
   \<and> main piped_env None None None
       = ([Run [''git'', ''branch'', ''-r''] ''/repo''], Raised TypeError)"
  by code_simp

section \<open>The fragment directory\<close>

text \<open>
  C10.  A configured fragment directory that is the empty string is treated as no
  directory at all: line 126 tests the value for truth, so the search base is
  \<open>base_directory/package_dir/package\<close> made absolute, searched under \<open>newsfragments\<close>,
  exactly as when the key is missing, and the rest of the run is the same.
\<close>

theorem empty_directory_is_absent:
  "fragment_search env base_directory (config \<lparr> directory := Some [] \<rparr>)
     = (abspath (getcwd env)
          (path_join base_directory [package_dir config, package config]),
        Some ''newsfragments'')
   \<and> fragment_search env base_directory (config \<lparr> directory := Some [] \<rparr>)
       = fragment_search env base_directory (config \<lparr> directory := None \<rparr>)
   \<and> match_fragments env base_directory (config \<lparr> directory := Some [] \<rparr>) files
       = match_fragments env base_directory (config \<lparr> directory := None \<rparr>) files"
  by (simp add: fragment_search_def truthy_def match_fragments_def found_fragments_def)

theorem empty_directory_is_absent_witness:
  "fragment_search example_env ''/srv/project''
     (example_config \<lparr> package_dir := ''src'', package := ''pkg'', directory := Some [] \<rparr>)
     = (''/srv/project/src/pkg'', Some ''newsfragments'')"
proof -
  have base: "abspath (getcwd example_env)
      (path_join ''/srv/project''
         [package_dir (example_config \<lparr> package_dir := ''src'', package := ''pkg'' \<rparr>),
          package (example_config \<lparr> package_dir := ''src'', package := ''pkg'' \<rparr>)])
      = ''/srv/project/src/pkg''"
    by code_simp
  from empty_directory_is_absent
         [of example_env "''/srv/project''"
             "example_config \<lparr> package_dir := ''src'', package := ''pkg'' \<rparr>"]
  have "fragment_search example_env ''/srv/project''
     (example_config \<lparr> package_dir := ''src'', package := ''pkg'', directory := Some [] \<rparr>)
     = (abspath (getcwd example_env)
          (path_join ''/srv/project''
             [package_dir (example_config \<lparr> package_dir := ''src'', package := ''pkg'' \<rparr>),
              package (example_config \<lparr> package_dir := ''src'', package := ''pkg'' \<rparr>)]),
        Some ''newsfragments'')"
    by blast
  with base show ?thesis by simp
qed

section \<open>The diff\<close>

text \<open>
  C6.  When the run has a branch to compare with and \<open>git diff\<close> exits with a status
  other than 0, the run echoes that git failed, echoes the output it captured, and ends
  in the very \<open>CalledProcessError\<close> that \<open>check_output\<close> raised: nothing else is
  echoed and no later step is taken.
\<close>

theorem diff_failure_reraised:
  assumes "load_config_from_options env dir cp = (base, cfg)"
    and "resolve_comparewith env cw base (getattr_encoding (stdout_encoding env)) = (evs, Inr b)"
    and "proc env (diff_command b) base = Exited rc out"
    and "rc \<noteq> 0"
  shows "main env cw dir cp =
           (evs @ [Run (diff_command b) base,
                   Echo ''git produced output while failing:'',
                   EchoBytes out],
            Raised (CalledProcessError rc (diff_command b) out))"
  using assms by (simp add: main_def next_block_def collect_diff_def run_def)

theorem diff_failure_reraised_witness:
  "main bad_revision_env None None None =
     ([Run [''git'', ''branch'', ''-r''] ''/repo'',
       Run [''git'', ''diff'', ''--name-only'', ''origin/main...''] ''/repo'',
       Echo ''git produced output while failing:'',
       EchoBytes ''fatal: bad revision''],
      Raised (CalledProcessError 128 [''git'', ''diff'', ''--name-only'', ''origin/main...'']
                ''fatal: bad revision''))"
proof -
  have failed: "proc bad_revision_env (diff_command ''origin/main'') ''/repo''
                  = Exited 128 ''fatal: bad revision''"
    by code_simp
  have status: "(128::int) \<noteq> 0"
    by simp
  from diff_failure_reraised [OF example_load(5) example_resolve(4) failed status]
  show ?thesis by (simp add: branch_listing_def diff_command_def)
qed

text \<open>
  C5.  When the run has a branch to compare with, \<open>git diff\<close> succeeds and its decoded
  output is empty once stripped, the run echoes the "no diffs" message and exits with
  status 0; \<open>find_fragments\<close> is not called.
\<close>

theorem empty_diff_exits_0:
  assumes "load_config_from_options env dir cp = (base, cfg)"
    and "resolve_comparewith env cw base (getattr_encoding (stdout_encoding env)) = (evs, Inr b)"
    and "proc env (diff_command b) base = Exited 0 out"
    and "decode env (getattr_encoding (stdout_encoding env)) out = Inr text"
    and "strip text = []"
  shows "main env cw dir cp =
           (evs @ [Run (diff_command b) base,
                   Echo (''On '' @ b @ '' branch, or no diffs, so no newsfragment required.'')],
            SysExit 0)
         \<and> filter is_find_fragments (fst (main env cw dir cp)) = []"
proof -
  have m: "main env cw dir cp =
           (evs @ [Run (diff_command b) base,
                   Echo (''On '' @ b @ '' branch, or no diffs, so no newsfragment required.'')],
            SysExit 0)"
    using assms by (simp add: main_def next_block_def collect_diff_def run_def)
  have "filter is_find_fragments evs = []"
    using resolve_no_find [of env cw base "getattr_encoding (stdout_encoding env)"] assms(2)
    by simp
  with m show ?thesis by simp
qed

theorem empty_diff_exits_0_witness:
  "main master_env None None None =
     ([Run [''git'', ''branch'', ''-r''] ''/repo'',
       DeprecationWarning master_deprecated,
       Run [''git'', ''diff'', ''--name-only'', ''origin/master...''] ''/repo'',
       Echo ''On origin/master branch, or no diffs, so no newsfragment required.''],
      SysExit 0)
   \<and> filter is_find_fragments (fst (main master_env None None None)) = []"
proof -
  have ran: "proc master_env (diff_command ''origin/master'') ''/repo'' = Exited 0 [CHR 0x0A]"
    by code_simp
  have decoded: "decode master_env (getattr_encoding (stdout_encoding master_env)) [CHR 0x0A]
                   = Inr [CHR 0x0A]"
    by code_simp
  have stripped: "strip [CHR 0x0A] = []"
    by code_simp
  from empty_diff_exits_0 [OF example_load(2) example_resolve(5) ran decoded stripped]
  show ?thesis by (simp add: branch_listing_def diff_command_def)
qed

section \<open>The news file\<close>

text \<open>
  C4.  When the run has the changed files and the normalised path of the configured news
  file is among them, whatever else is, the run echoes the files it looked at and that the
  checks are skipped, and exits with status 0; \<open>find_fragments\<close> is not called.
\<close>

theorem news_file_change_skips:
  assumes "load_config_from_options env dir cp = (base, cfg)"
    and "resolve_comparewith env cw base (getattr_encoding (stdout_encoding env)) = (e1, Inr b)"
    and "collect_diff env base (getattr_encoding (stdout_encoding env)) b
           = (e2, Inr files_changed)"
    and "normpath (path_join base [filename cfg]) \<in> changed_files base files_changed"
  shows "main env cw dir cp =
           (e1 @ e2 @ [Echo ''Looking at these files:'', Echo ''----'']
              @ enumerate_echo (set_iter env (changed_files base files_changed))
              @ [Echo ''----'', Echo ''Checks SKIPPED: news file changes detected.''],
            SysExit 0)
         \<and> filter is_find_fragments (fst (main env cw dir cp)) = []"
proof -
  have m: "main env cw dir cp =
           (e1 @ e2 @ [Echo ''Looking at these files:'', Echo ''----'']
              @ enumerate_echo (set_iter env (changed_files base files_changed))
              @ [Echo ''----'', Echo ''Checks SKIPPED: news file changes detected.''],
            SysExit 0)"
    using assms by (simp add: main_def next_block_def news_file_shortcut_def)
  have "filter is_find_fragments e1 = []"
    using resolve_no_find [of env cw base "getattr_encoding (stdout_encoding env)"] assms(2)
    by simp
  moreover have "filter is_find_fragments e2 = []"
    using collect_no_find [of env base "getattr_encoding (stdout_encoding env)" b] assms(3)
    by simp
  ultimately show ?thesis using m by simp
qed

theorem news_file_change_skips_witness:
  "main news_env None None None =
     ([Run [''git'', ''branch'', ''-r''] ''/repo'',
       Run [''git'', ''diff'', ''--name-only'', ''origin/main...''] ''/repo'',
       Echo ''Looking at these files:'', Echo ''----'',
       Echo ''1. /repo/src/feature.py'', Echo ''2. /repo/NEWS.rst'', Echo ''----'',
       Echo ''Checks SKIPPED: news file changes detected.''],
      SysExit 0)
   \<and> filter is_find_fragments (fst (main news_env None None None)) = []"
proof -
  have files: "changed_files ''/repo'' (''src/feature.py'' @ [CHR 0x0A] @ ''NEWS.rst'')
                 = {''/repo/src/feature.py'', ''/repo/NEWS.rst''}"
    by code_simp
  have news: "normpath (path_join ''/repo'' [filename example_config]) = ''/repo/NEWS.rst''"
    by code_simp
  have changed: "normpath (path_join ''/repo'' [filename example_config])
      \<in> changed_files ''/repo'' (''src/feature.py'' @ [CHR 0x0A] @ ''NEWS.rst'')"
    unfolding files news by simp
  have listed: "enumerate_echo (set_iter news_env {''/repo/src/feature.py'', ''/repo/NEWS.rst''})
      = ([Echo ''1. /repo/src/feature.py'', Echo ''2. /repo/NEWS.rst'']
           :: (unit, unit) event list)"
    by code_simp
  from news_file_change_skips [OF example_load(3) example_resolve(2) example_collect(2) changed]
  show ?thesis
    unfolding files listed by (simp add: branch_listing_def diff_command_def)
qed

section \<open>The intersection\<close>

text \<open>
  C1.  A run that reaches the intersection (it has a branch to compare with, the diff is
  not empty, the news file is not among the changed files) calls \<open>find_fragments\<close> and
  is then decided by \<open>fragments & files\<close> alone, \<open>files\<close> being the normalised changed
  files.  If the intersection is empty, the run echoes that no new fragments were found
  and exits with status 1.  If it is not, the run echoes \<open>Found:\<close> and a numbered list,
  and exits with status 0; the list numbers the paths that iterating over the
  intersection yields, which are exactly its elements, each once.
\<close>

theorem intersection_decides:
  assumes "load_config_from_options env dir cp = (base, cfg)"
    and "resolve_comparewith env cw base (getattr_encoding (stdout_encoding env)) = (e1, Inr b)"
    and "collect_diff env base (getattr_encoding (stdout_encoding env)) b
           = (e2, Inr files_changed)"
    and "news_file_shortcut env base cfg files_changed = (e3, Inr files)"
  shows "files = changed_files base files_changed
     \<and> (found_fragments env base cfg \<inter> files = {} \<longrightarrow>
          main env cw dir cp =
            (e1 @ e2 @ e3
               @ [FindFragments (fst (fragment_search env base cfg)) (sections cfg)
                    (snd (fragment_search env base cfg)) (types cfg),
                  Echo ''No new newsfragments found on this branch.''],
             SysExit 1))
     \<and> (found_fragments env base cfg \<inter> files \<noteq> {}
          \<and> set (set_iter env (found_fragments env base cfg \<inter> files))
                = found_fragments env base cfg \<inter> files
          \<and> distinct (set_iter env (found_fragments env base cfg \<inter> files)) \<longrightarrow>
          (\<exists>reported.
             main env cw dir cp =
               (e1 @ e2 @ e3
                  @ [FindFragments (fst (fragment_search env base cfg)) (sections cfg)
                       (snd (fragment_search env base cfg)) (types cfg),
                     Echo ''Found:'']
                  @ enumerate_echo reported,
                SysExit 0)
             \<and> set reported = found_fragments env base cfg \<inter> files
             \<and> distinct reported))"
  using assms
  by (auto simp: main_def next_block_def match_fragments_def news_file_shortcut_def Let_def
           split: prod.splits if_splits)

theorem intersection_decides_witness:
  "main no_fragment_env None None None =
     ([Run [''git'', ''branch'', ''-r''] ''/repo'',
       Run [''git'', ''diff'', ''--name-only'', ''origin/main...''] ''/repo'',
       Echo ''Looking at these files:'', Echo ''----'',
       Echo ''1. /repo/src/feature.py'', Echo ''----'',
       FindFragments ''/repo'' () (Some ''newsfragments'') (),
       Echo ''No new newsfragments found on this branch.''],
      SysExit 1)
   \<and> (\<exists>reported.
        main example_env None None None =
          ([Run [''git'', ''branch'', ''-r''] ''/repo'',
            Run [''git'', ''diff'', ''--name-only'', ''origin/main...''] ''/repo'',
            Echo ''Looking at these files:'', Echo ''----'',
            Echo ''1. /repo/src/feature.py'', Echo ''2. /repo/newsfragments/123.feature'',
            Echo ''----'',
            FindFragments ''/repo'' () (Some ''newsfragments'') (),
            Echo ''Found:''] @ enumerate_echo reported,
           SysExit 0)
        \<and> set reported = {''/repo/newsfragments/123.feature''}
        \<and> distinct reported)"
proof -
  let ?looking1 = "[Echo ''Looking at these files:'', Echo ''----'',
                    Echo ''1. /repo/src/feature.py'', Echo ''----''] :: (unit, unit) event list"
  let ?looking2 = "[Echo ''Looking at these files:'', Echo ''----'',
                    Echo ''1. /repo/src/feature.py'',
                    Echo ''2. /repo/newsfragments/123.feature'',
                    Echo ''----''] :: (unit, unit) event list"
  have news1: "news_file_shortcut no_fragment_env ''/repo'' example_config ''src/feature.py''
                 = (?looking1, Inr {''/repo/src/feature.py''})"
    by code_simp
  have news2: "news_file_shortcut example_env ''/repo'' example_config
                 (''src/feature.py'' @ [CHR 0x0A] @ ''newsfragments/123.feature'')
                 = (?looking2,
                    Inr {''/repo/src/feature.py'', ''/repo/newsfragments/123.feature''})"
    by code_simp
  have search: "fragment_search no_fragment_env ''/repo'' example_config
                  = (''/repo'', Some ''newsfragments'')"
       "fragment_search example_env ''/repo'' example_config
                  = (''/repo'', Some ''newsfragments'')"
    by code_simp+
  have none: "found_fragments no_fragment_env ''/repo'' example_config
                \<inter> {''/repo/src/feature.py''} = {}"
    by code_simp
  have some: "found_fragments example_env ''/repo'' example_config
                \<inter> {''/repo/src/feature.py'', ''/repo/newsfragments/123.feature''}
                = {''/repo/newsfragments/123.feature''}"
    by code_simp
  have iter: "set_iter example_env {''/repo/newsfragments/123.feature''}
                = [''/repo/newsfragments/123.feature'']"
    by code_simp
  from intersection_decides
         [OF example_load(4) example_resolve(3) example_collect(3) news1] none
  have a: "main no_fragment_env None None None =
     ([Run branch_listing ''/repo''] @ [Run (diff_command ''origin/main'') ''/repo'']
        @ ?looking1
        @ [FindFragments ''/repo'' () (Some ''newsfragments'') (),
           Echo ''No new newsfragments found on this branch.''],
      SysExit 1)"
    by (simp add: search)
  from intersection_decides
         [OF example_load(1) example_resolve(1) example_collect(1) news2]
  have b: "\<exists>reported.
        main example_env None None None =
          ([Run branch_listing ''/repo''] @ [Run (diff_command ''origin/main'') ''/repo'']
             @ ?looking2
             @ [FindFragments ''/repo'' () (Some ''newsfragments'') (), Echo ''Found:'']
             @ enumerate_echo reported,
           SysExit 0)
        \<and> set reported = {''/repo/newsfragments/123.feature''}
        \<and> distinct reported"
    unfolding some search by (simp add: iter)
  from a b show ?thesis by (simp add: branch_listing_def diff_command_def)
qed

section \<open>A branch given with \<open>--compare-with\<close>\<close>

text \<open>
  C8.  When \<open>--compare-with\<close> gives a branch, the only command the run starts is
  \<open>git diff --name-only\<close> with that string followed by three dots, in the base
  directory: \<open>git branch -r\<close> is not run, and the rule that picks a default (with its
  warning) is not applied.
\<close>

theorem compare_with_bypasses_branch_listing:
  "filter is_run (fst (main env (Some b) dir cp))
     = [Run [''git'', ''diff'', ''--name-only'', b @ ''...'']
          (fst (load_config_from_options env dir cp))]
   \<and> filter is_warning (fst (main env (Some b) dir cp)) = []"
proof -
  obtain base cfg where l: "load_config_from_options env dir cp = (base, cfg)"
    by (cases "load_config_from_options env dir cp")
  let ?enc = "getattr_encoding (stdout_encoding env)"
  have r: "resolve_comparewith env (Some b) base ?enc = ([], Inr b)"
    by (simp add: resolve_comparewith_def)
  have first: "next_block (resolve_comparewith env (Some b) base ?enc)
                 (collect_diff env base ?enc) = collect_diff env base ?enc b"
    by (simp add: r next_block_def split: prod.splits)
  have runs: "filter is_run (fst (main env (Some b) dir cp)) = [Run (diff_command b) base]"
    unfolding fst_main [OF l] first
    by (simp add: filter_next_block_none match_runs news_runs collect_runs)
  have warnings: "filter is_warning (fst (main env (Some b) dir cp)) = []"
    unfolding fst_main [OF l] first
    by (simp add: filter_next_block_none match_warnings news_warnings collect_warnings)
  from runs warnings l show ?thesis by (simp add: diff_command_def)
qed

theorem compare_with_bypasses_branch_listing_witness:
  "filter is_run (fst (main master_env (Some ''release/1.x'') None None))
     = [Run [''git'', ''diff'', ''--name-only'', ''release/1.x...''] ''/repo'']
   \<and> filter is_warning (fst (main master_env (Some ''release/1.x'') None None)) = []"
  using compare_with_bypasses_branch_listing [of master_env "''release/1.x''" None None]
  by (simp add: example_load)

section \<open>Normalisation\<close>

lemma split_from_append:
  "split_from sep acc (xs @ sep # ys) = split_from sep acc xs @ split_from sep [] ys"
  by (induction xs arbitrary: acc) auto

lemma split_from_no_sep: "sep \<notin> set xs \<Longrightarrow> split_from sep acc xs = [rev acc @ xs]"
  by (induction xs arbitrary: acc) auto

lemma split_append: "split (xs @ sep # ys) sep = split xs sep @ split ys sep"
  by (simp add: split_def split_from_append)

lemma split_name: "is_name n \<Longrightarrow> split n CHR ''/'' = [n]"
  by (simp add: split_def is_name_def split_from_no_sep)

lemma norm_comp_skip [simp]: "norm_comp i cs [] = cs" "norm_comp i cs ''.'' = cs"
  by (simp_all add: norm_comp_def)

lemma norm_comp_name_dotdot: "is_name n \<Longrightarrow> norm_comp i (norm_comp i cs n) ''..'' = cs"
  by (simp add: norm_comp_def is_name_def)

lemma split_dot [simp]: "split ''.'' CHR ''/'' = [''.'']" "split ''..'' CHR ''/'' = [''..'']"
  "split [] CHR ''/'' = [[]]"
  by (simp_all add: split_def)

lemma comps_redundant:
  "redundant_variant p q \<Longrightarrow>
   foldl (norm_comp i) [] (split p CHR ''/'') = foldl (norm_comp i) [] (split q CHR ''/'')"
proof (induction arbitrary: i rule: redundant_variant.induct)
  case (doubled_sep xs ys)
  have "split (xs @ ''//'' @ ys) CHR ''/''
          = split xs CHR ''/'' @ split [] CHR ''/'' @ split ys CHR ''/''"
    using split_append [of xs "CHR ''/''" "''/'' @ ys"] split_append [of "[]" "CHR ''/''" ys]
    by simp
  then show ?case
    using split_append [of xs "CHR ''/''" ys] by simp
next
  case (trailing_sep xs)
  show ?case
    using split_append [of xs "CHR ''/''" "[]"] by simp
next
  case (dot_segment xs ys)
  have "split (xs @ ''/./'' @ ys) CHR ''/''
          = split xs CHR ''/'' @ split ''.'' CHR ''/'' @ split ys CHR ''/''"
    using split_append [of xs "CHR ''/''" "''./'' @ ys"] split_append [of "''.''" "CHR ''/''" ys]
    by simp
  then show ?case
    using split_append [of xs "CHR ''/''" ys] by simp
next
  case (leading_dot ys)
  have "split (''./'' @ ys) CHR ''/'' = split ''.'' CHR ''/'' @ split ys CHR ''/''"
    using split_append [of "''.''" "CHR ''/''" ys] by simp
  then show ?case by simp
next
  case (dotdot_segment n xs ys)
  have "split (xs @ ''/'' @ n @ ''/../'' @ ys) CHR ''/''
          = split xs CHR ''/'' @ [n] @ [''..''] @ split ys CHR ''/''"
    using split_append [of xs "CHR ''/''" "n @ ''/../'' @ ys"]
      split_append [of n "CHR ''/''" "''../'' @ ys"]
      split_append [of "''..''" "CHR ''/''" ys]
      split_name [OF dotdot_segment]
    by simp
  then show ?case
    using split_append [of xs "CHR ''/''" ys] norm_comp_name_dotdot [OF dotdot_segment]
    by simp
next
  case (same p)
  show ?case by simp
next
  case (swap p q)
  then show ?case by simp
next
  case (chain p q r)
  then show ?case by simp
qed

lemma normpath_by_comps:
  "normpath p =
     (let joined = join_str ''/'' (foldl (norm_comp (initial_slashes p)) [] (split p CHR ''/''));
          path' = (if initial_slashes p \<noteq> 0
                   then replicate (initial_slashes p) CHR ''/'' @ joined else joined)
      in if path' = [] then ''.'' else path')"
proof (cases "p = []")
  case True
  then show ?thesis
    by (simp add: normpath_def initial_slashes_def startswith_def)
next
  case False
  then show ?thesis
    by (simp add: normpath_def Let_def)
qed

lemma normpath_redundant:
  assumes "redundant_variant p q" and "initial_slashes p = initial_slashes q"
  shows "normpath p = normpath q"
proof -
  have "foldl (norm_comp (initial_slashes p)) [] (split p CHR ''/'')
          = foldl (norm_comp (initial_slashes q)) [] (split q CHR ''/'')"
    using comps_redundant [OF assms(1), of "initial_slashes q"] assms(2) by simp
  then show ?thesis
    unfolding normpath_by_comps [of p] normpath_by_comps [of q] assms(2) by simp
qed

text \<open>
  C7, as the specification states it, fails: two paths that differ only by a doubled
  separator need not normalise to the same path.  \<open>normpath\<close> keeps exactly two leading
  separators (POSIX gives them a meaning of their own), so \<open>/newsfragments/1.feature\<close>
  and \<open>//newsfragments/1.feature\<close> stay different, and a changed file and a fragment
  path that differ in this way do not meet in the intersection.
\<close>

theorem doubled_leading_separator_kept:
  "redundant_variant ''/newsfragments/1.feature'' ''//newsfragments/1.feature''
   \<and> normpath ''/newsfragments/1.feature'' = ''/newsfragments/1.feature''
   \<and> normpath ''//newsfragments/1.feature'' = ''//newsfragments/1.feature''
   \<and> set (map normpath [''//newsfragments/1.feature''])
       \<inter> changed_files ''/'' ''newsfragments/1.feature'' = {}"
proof -
  have "redundant_variant ''/newsfragments/1.feature'' ''//newsfragments/1.feature''"
    using doubled_sep [of "[]" "''newsfragments/1.feature''"] by simp
  moreover have "normpath ''/newsfragments/1.feature'' = ''/newsfragments/1.feature''"
    by code_simp
  moreover have "normpath ''//newsfragments/1.feature'' = ''//newsfragments/1.feature''"
    by code_simp
  moreover have "set (map normpath [''//newsfragments/1.feature''])
       \<inter> changed_files ''/'' ''newsfragments/1.feature'' = {}"
    by code_simp
  ultimately show ?thesis by blast
qed

text \<open>
  C7, amended.  Both sets are built with the same \<open>normpath\<close>, and two paths that differ
  only by redundant separators, \<open>.\<close> segments or a directory name followed by \<open>..\<close>
  normalise to the same path whenever they begin alike: both with no separator, both with
  exactly two, or both with one or at least three.  So when such a pair is a changed file
  (joined to the base directory) and a path that \<open>find_fragments\<close> returned, their
  common normal form is in \<open>fragments & files\<close>.
\<close>

theorem normalization_consistent:
  assumes "redundant_variant p q" and "initial_slashes p = initial_slashes q"
  shows "normpath p = normpath q
     \<and> (line \<in> set (splitlines (strip files_changed)) \<and> p = path_join base [line]
          \<and> q \<in> set (snd (find_fragments env (fst (fragment_search env base cfg))
                           (sections cfg) (snd (fragment_search env base cfg)) (types cfg)))
        \<longrightarrow> normpath q \<in> found_fragments env base cfg \<inter> changed_files base files_changed)"
proof -
  have eq: "normpath p = normpath q"
    using assms by (rule normpath_redundant)
  have "normpath q \<in> found_fragments env base cfg \<inter> changed_files base files_changed"
    if "line \<in> set (splitlines (strip files_changed))" and "p = path_join base [line]"
      and "q \<in> set (snd (find_fragments env (fst (fragment_search env base cfg))
                           (sections cfg) (snd (fragment_search env base cfg)) (types cfg)))"
  proof -
    have "normpath q \<in> found_fragments env base cfg"
      using that(3) by (auto simp: found_fragments_def split: prod.splits)
    moreover have "normpath p \<in> changed_files base files_changed"
      using that(1,2) by (auto simp: changed_files_def)
    ultimately show ?thesis using eq by simp
  qed
  with eq show ?thesis by blast
qed

theorem normalization_consistent_witness:
  "normpath ''/repo/newsfragments/123.feature'' = normpath ''/repo/./newsfragments//123.feature''
   \<and> normpath ''/repo/./newsfragments//123.feature''
       \<in> found_fragments dotted_env ''/repo'' example_config
           \<inter> changed_files ''/repo''
               (''src/feature.py'' @ [CHR 0x0A] @ ''newsfragments/123.feature'')"
proof -
  let ?p = "''/repo/newsfragments/123.feature''"
  let ?m = "''/repo/./newsfragments/123.feature''"
  let ?q = "''/repo/./newsfragments//123.feature''"
  let ?text = "''src/feature.py'' @ [CHR 0x0A] @ ''newsfragments/123.feature''"
  have "redundant_variant ?p ?m"
    using dot_segment [of "''/repo''" "''newsfragments/123.feature''"] by simp
  moreover have "redundant_variant ?m ?q"
    using doubled_sep [of "''/repo/./newsfragments''" "''123.feature''"] by simp
  ultimately have variant: "redundant_variant ?p ?q"
    by (rule chain)
  have slashes: "initial_slashes ?p = initial_slashes ?q"
    by code_simp
  have line: "''newsfragments/123.feature'' \<in> set (splitlines (strip ?text))"
    by code_simp
  have joined: "?p = path_join ''/repo'' [''newsfragments/123.feature'']"
    by code_simp
  have found: "?q \<in> set (snd (find_fragments dotted_env
                    (fst (fragment_search dotted_env ''/repo'' example_config))
                    (sections example_config)
                    (snd (fragment_search dotted_env ''/repo'' example_config))
                    (types example_config)))"
    by code_simp
  from normalization_consistent [OF variant slashes, of "''newsfragments/123.feature''"
         ?text "''/repo''" dotted_env example_config] line joined found
  show ?thesis by blast
qed

section \<open>How a run ends\<close>

lemma str_nat_digit: "\<exists>d t. str_nat n = d # t \<and> d \<in> set ''0123456789''"
proof (induction n rule: str_nat.induct)
  case (1 n)
  show ?case
  proof (cases "n < 10")
    case True
    have "\<forall>k \<in> set [0 ..< 10]. char_of (48 + k) \<in> set ''0123456789''"
      by code_simp
    with True have "char_of (48 + n) \<in> set ''0123456789''"
      by simp
    with True show ?thesis
      by (subst str_nat.simps) simp
  next
    case False
    with "1.IH" obtain d t where "str_nat (n div 10) = d # t" "d \<in> set ''0123456789''"
      by blast
    with False show ?thesis
      by (subst str_nat.simps) simp
  qed
qed

lemma numbered_not_terminal: "\<not> terminal_message (str_nat n @ CHR ''.'' # CHR '' '' # x)"
proof -
  obtain d t where "str_nat n = d # t" "d \<in> set ''0123456789''"
    using str_nat_digit by blast
  then show ?thesis
    by (auto simp: terminal_message_def startswith_def)
qed

lemma enumerate_echo_not_terminal [simp]:
  "filter is_terminal_echo (enumerate_echo xs) = []"
  by (auto simp: enumerate_echo_def filter_empty_conv numbered_not_terminal)

lemma terminal_messages [simp]:
  "terminal_message ''Could not detect default branch. Aborting.''"
  "terminal_message (''On '' @ b @ '' branch, or no diffs, so no newsfragment required.'')"
  "terminal_message
     (CHR ''O'' # CHR ''n'' # CHR '' '' # b
        @ '' branch, or no diffs, so no newsfragment required.'')"
  "terminal_message ''Checks SKIPPED: news file changes detected.''"
  "terminal_message ''No new newsfragments found on this branch.''"
  "terminal_message ''Found:''"
  "\<not> terminal_message ''Looking at these files:''"
  "\<not> terminal_message ''----''"
  "\<not> terminal_message ''git produced output while failing:''"
  by (simp_all add: terminal_message_def startswith_def endswith_def)

lemma warnings_not_echo [simp]:
  "filter is_echo (map DeprecationWarning ws) = []"
  "filter is_terminal_echo (map DeprecationWarning ws) = []"
  by (auto simp: filter_empty_conv)

lemma no_echo_no_terminal: "filter is_echo evs = [] \<Longrightarrow> filter is_terminal_echo evs = []"
proof -
  have "is_echo e" if "is_terminal_echo e" for e :: "('a, 'b) event"
    using that by (cases e) auto
  then show "filter is_echo evs = [] \<Longrightarrow> filter is_terminal_echo evs = []"
    by (auto simp: filter_empty_conv)
qed

lemma run_error:
  "run env args cwd = Inl e \<Longrightarrow>
   e = OSError \<or> (\<exists>rc out. e = CalledProcessError rc args out)"
  by (auto simp: run_def split: proc_result.splits if_splits)

lemma decode_error: "decode env enc b = Inl e \<Longrightarrow> e = TypeError \<or> e = UnicodeError"
  by (auto simp: decode_def split: option.splits)

lemma get_remote_branches_error:
  "get_remote_branches env base enc = Inl (CalledProcessError rc cmd out) \<Longrightarrow>
   cmd = branch_listing"
  by (auto simp: get_remote_branches_def branch_listing_def
           split: sum.splits dest: run_error decode_error)

lemma resolve_ends:
  "resolve_comparewith env cw base enc = (evs, r) \<Longrightarrow>
   (\<exists>b. r = Inr b \<and> filter is_echo evs = [])
   \<or> (r = Inl (SysExit 1) \<and> length (filter is_terminal_echo evs) = 1)
   \<or> (\<exists>e. r = Inl (Raised e) \<and> filter is_echo evs = []
          \<and> (\<forall>rc cmd out. e = CalledProcessError rc cmd out \<longrightarrow> cmd = branch_listing))"
  by (auto simp: resolve_comparewith_def split: option.splits sum.splits prod.splits
           dest: get_remote_branches_error)

lemma collect_ends:
  "collect_diff env base enc b = (evs, r) \<Longrightarrow>
   (\<exists>fc. r = Inr fc \<and> filter is_echo evs = [])
   \<or> (r = Inl (SysExit 0) \<and> length (filter is_terminal_echo evs) = 1)
   \<or> (\<exists>e. r = Inl (Raised e) \<and> filter is_terminal_echo evs = []
          \<and> (\<forall>rc cmd out. e = CalledProcessError rc cmd out \<longrightarrow>
                cmd = diff_command b
                \<and> filter is_echo evs
                    = [Echo ''git produced output while failing:'', EchoBytes out]))"
  by (auto simp: collect_diff_def Let_def split: sum.splits exn.splits if_splits
           dest: run_error decode_error)

lemma news_ends:
  "news_file_shortcut env base cfg fc = (evs, r) \<Longrightarrow>
   (\<exists>files. r = Inr files \<and> filter is_terminal_echo evs = [])
   \<or> (r = Inl (SysExit 0) \<and> length (filter is_terminal_echo evs) = 1)"
  by (auto simp: news_file_shortcut_def Let_def split: if_splits)

lemma match_ends:
  "match_fragments env base cfg files = (evs, r) \<Longrightarrow>
   (r = Inl (SysExit 0) \<or> r = Inl (SysExit 1)) \<and> length (filter is_terminal_echo evs) = 1"
  by (auto simp: match_fragments_def Let_def split: prod.splits if_splits)

text \<open>
  C9, as stated, fails: the re-raised error of the diff is not the only way a run ends
  abnormally.  With no \<open>--compare-with\<close>, a failing \<open>git branch -r\<close> raises
  \<open>CalledProcessError\<close> outside the \<open>try\<close> of line 91: the run ends in that exception
  before any diff, with nothing echoed.
\<close>

theorem branch_listing_failure_propagates:
  "main no_repository_env None None None =
     ([Run [''git'', ''branch'', ''-r''] ''/repo''],
      Raised (CalledProcessError 128 [''git'', ''branch'', ''-r'']
                ''fatal: not a git repository''))"
  by code_simp

text \<open>
  C9, amended.  Every run ends either in \<open>sys.exit\<close> with status 0 or 1, having echoed
  exactly one of the five terminal messages, or in an exception, having echoed none of
  them; it never falls through to a plain return.  When the exception is a
  \<open>CalledProcessError\<close>, it comes either from \<open>git branch -r\<close>, and then nothing at all
  was echoed, or from \<open>git diff\<close>, and then what was echoed is the notice that git
  failed and git's output.
\<close>

theorem run_outcomes:
  "(\<exists>n. snd (main env cw dir cp) = SysExit n \<and> (n = 0 \<or> n = 1)
        \<and> length (filter is_terminal_echo (fst (main env cw dir cp))) = 1)
   \<or> (\<exists>e. snd (main env cw dir cp) = Raised e
        \<and> filter is_terminal_echo (fst (main env cw dir cp)) = []
        \<and> (\<forall>rc cmd out. e = CalledProcessError rc cmd out \<longrightarrow>
              (cmd = branch_listing \<and> filter is_echo (fst (main env cw dir cp)) = [])
              \<or> (\<exists>b. cmd = diff_command b
                    \<and> filter is_echo (fst (main env cw dir cp))
                        = [Echo ''git produced output while failing:'', EchoBytes out])))"
proof -
  obtain base cfg where l: "load_config_from_options env dir cp = (base, cfg)"
    by (cases "load_config_from_options env dir cp")
  let ?enc = "getattr_encoding (stdout_encoding env)"
  obtain e1 r1 where R: "resolve_comparewith env cw base ?enc = (e1, r1)"
    by (cases "resolve_comparewith env cw base ?enc")
  from resolve_ends [OF R] consider
      (branch) b where "r1 = Inr b" "filter is_echo e1 = []"
    | (no_default) "r1 = Inl (SysExit 1)" "length (filter is_terminal_echo e1) = 1"
    | (listing_raised) e where "r1 = Inl (Raised e)" "filter is_echo e1 = []"
        "\<forall>rc cmd out. e = CalledProcessError rc cmd out \<longrightarrow> cmd = branch_listing"
    by blast
  then show ?thesis
  proof cases
    case no_default
    then have "main env cw dir cp = (e1, SysExit 1)"
      by (simp add: main_def l R next_block_def)
    with no_default show ?thesis by simp
  next
    case listing_raised
    then have "main env cw dir cp = (e1, Raised e)"
      by (simp add: main_def l R next_block_def)
    with listing_raised show ?thesis
      by (simp add: no_echo_no_terminal)
  next
    case branch
    note e1 = branch(2) no_echo_no_terminal [OF branch(2)]
    obtain e2 r2 where C: "collect_diff env base ?enc b = (e2, r2)"
      by (cases "collect_diff env base ?enc b")
    from collect_ends [OF C] consider
        (changed) fc where "r2 = Inr fc" "filter is_echo e2 = []"
      | (no_diffs) "r2 = Inl (SysExit 0)" "length (filter is_terminal_echo e2) = 1"
      | (diff_raised) e where "r2 = Inl (Raised e)" "filter is_terminal_echo e2 = []"
          "\<forall>rc cmd out. e = CalledProcessError rc cmd out \<longrightarrow>
             cmd = diff_command b
             \<and> filter is_echo e2 = [Echo ''git produced output while failing:'', EchoBytes out]"
      by blast
    then show ?thesis
    proof cases
      case no_diffs
      then have "main env cw dir cp = (e1 @ e2, SysExit 0)"
        by (simp add: main_def l R C branch(1) next_block_def)
      with no_diffs e1 show ?thesis by simp
    next
      case diff_raised
      then have "main env cw dir cp = (e1 @ e2, Raised e)"
        by (simp add: main_def l R C branch(1) next_block_def)
      with diff_raised e1 show ?thesis by auto
    next
      case changed
      note e2 = no_echo_no_terminal [OF changed(2)]
      obtain e3 r3 where N: "news_file_shortcut env base cfg fc = (e3, r3)"
        by (cases "news_file_shortcut env base cfg fc")
      from news_ends [OF N] consider
          (look) files where "r3 = Inr files" "filter is_terminal_echo e3 = []"
        | (skipped) "r3 = Inl (SysExit 0)" "length (filter is_terminal_echo e3) = 1"
        by blast
      then show ?thesis
      proof cases
        case skipped
        then have "main env cw dir cp = (e1 @ e2 @ e3, SysExit 0)"
          by (simp add: main_def l R C N branch(1) changed(1) next_block_def)
        with skipped e1 e2 show ?thesis by simp
      next
        case look
        obtain e4 r4 where M: "match_fragments env base cfg files = (e4, r4)"
          by (cases "match_fragments env base cfg files")
        from match_ends [OF M] obtain n where
          m: "r4 = Inl (SysExit n)" "n = 0 \<or> n = 1" "length (filter is_terminal_echo e4) = 1"
          by blast
        then have "main env cw dir cp = (e1 @ e2 @ e3 @ e4, SysExit n)"
          by (simp add: main_def l R C N M branch(1) changed(1) look(1) next_block_def)
        with m look e1 e2 show ?thesis by simp
      qed
    qed
  qed
qed

theorem run_outcomes_witness:
  "snd (main example_env None None None) = SysExit 0
   \<and> length (filter is_terminal_echo (fst (main example_env None None None))) = 1
   \<and> snd (main no_fragment_env None None None) = SysExit 1
   \<and> length (filter is_terminal_echo (fst (main no_fragment_env None None None))) = 1
   \<and> filter is_echo (fst (main bad_revision_env None None None))
       = [Echo ''git produced output while failing:'', EchoBytes ''fatal: bad revision'']
   \<and> filter is_echo (fst (main no_repository_env None None None)) = []"
proof -
  have found: "snd (main example_env None None None) = SysExit 0"
    by code_simp
  have missing: "snd (main no_fragment_env None None None) = SysExit 1"
    by code_simp
  have diff: "snd (main bad_revision_env None None None)
      = Raised (CalledProcessError 128 (diff_command ''origin/main'') ''fatal: bad revision'')"
    by code_simp
  have listing: "snd (main no_repository_env None None None)
      = Raised (CalledProcessError 128 branch_listing ''fatal: not a git repository'')"
    by code_simp
  have distinct_commands: "diff_command b \<noteq> branch_listing" for b
    by (simp add: diff_command_def branch_listing_def)
  from run_outcomes [of example_env None None None] found
  have a: "length (filter is_terminal_echo (fst (main example_env None None None))) = 1"
    by simp
  from run_outcomes [of no_fragment_env None None None] missing
  have b: "length (filter is_terminal_echo (fst (main no_fragment_env None None None))) = 1"
    by simp
  from run_outcomes [of bad_revision_env None None None] diff
  have c: "filter is_echo (fst (main bad_revision_env None None None))
       = [Echo ''git produced output while failing:'', EchoBytes ''fatal: bad revision'']"
    by (simp add: distinct_commands)
  from run_outcomes [of no_repository_env None None None] listing
  have d: "filter is_echo (fst (main no_repository_env None None None)) = []"
    by (simp add: distinct_commands [symmetric])
  from found missing a b c d show ?thesis by simp
qed

end
